theory Spec2Isabelle
  imports Main
begin

section \<open>Python values, exceptions and dictionaries\<close>

text \<open>
  The source is one Python module, \<^verbatim>\<open>func_validacpf.py\<close>: the function
  \<^verbatim>\<open>validar_cpf\<close> and two HTTP handlers around it. A Python \<^verbatim>\<open>str\<close> is a
  sequence of code points; it is modelled as a \<^typ>\<open>string\<close> whose characters are the
  code points below 256, so that each accented letter of the messages is one character
  (\<open>CHR 0xED\<close> is i-acute, \<open>CHR 0xE3\<close> a-tilde, \<open>CHR 0xE1\<close> a-acute, \<open>CHR 0xE7\<close>
  c-cedilla, \<open>CHR 0xE2\<close> a-circumflex).

  An exception raised by the source is the \<open>Inl\<close> branch of a sum; the constructors
  are the Python exception classes that the modelled operations can raise.
\<close>

datatype exn = TypeError | ValueError | IndexError | KeyError | NameError | AttributeError

text \<open>
  The values that reach the module: what \<^verbatim>\<open>json\<close> parsing of a request body can
  give (floats left out) and what the result dictionary holds. A \<^verbatim>\<open>dict\<close> is an
  association list in insertion order, each key once.
\<close>

datatype pyval =
    PyNone
  | PyBool bool
  | PyInt int
  | PyStr string
  | PyList "pyval list"
  | PyDict "(string \<times> pyval) list"

type_synonym dict = "(string \<times> pyval) list"

section \<open>The validator\<close>

text \<open>
  \<^verbatim>\<open>re.sub(r'[^0-9]', '', cpf)\<close>: the pattern matches one character outside
  the range \<^verbatim>\<open>0\<close> to \<^verbatim>\<open>9\<close>; every match is replaced by the empty string, scanning
  from the left. On an argument that is not a string \<^verbatim>\<open>re.sub\<close> raises
  \<^verbatim>\<open>TypeError\<close>.
\<close>

definition numerico :: "char \<Rightarrow> bool" where
  "numerico c = (c \<in> set ''0123456789'')"

fun remove_nao_numericos :: "string \<Rightarrow> string" where
  "remove_nao_numericos [] = []"
| "remove_nao_numericos (c # cs) =
     (if numerico c then c # remove_nao_numericos cs else remove_nao_numericos cs)"

fun re_sub :: "pyval \<Rightarrow> exn + string" where
  "re_sub (PyStr s) = Inr (remove_nao_numericos s)"
| "re_sub _ = Inl TypeError"

text \<open>
  \<^verbatim>\<open>cpf[i]\<close> raises \<^verbatim>\<open>IndexError\<close> out of range, and \<^verbatim>\<open>int(c)\<close> on a
  one-character string raises \<^verbatim>\<open>ValueError\<close> unless the character is a decimal digit
  (below code point 256 these are \<^verbatim>\<open>0\<close> to \<^verbatim>\<open>9\<close> only).
\<close>

definition py_index :: "string \<Rightarrow> nat \<Rightarrow> exn + char" where
  "py_index s i = (if i < length s then Inr (s ! i) else Inl IndexError)"

definition valor :: "char \<Rightarrow> int" where
  "valor c = int (of_char c) - 48"

definition py_int :: "char \<Rightarrow> exn + int" where
  "py_int c = (if numerico c then Inr (valor c) else Inl ValueError)"

definition digito_em :: "string \<Rightarrow> nat \<Rightarrow> exn + int" where
  "digito_em cpf i = (case py_index cpf i of Inl e \<Rightarrow> Inl e | Inr c \<Rightarrow> py_int c)"

text \<open>
  The two loops \<^verbatim>\<open>for i in range(n): soma += int(cpf[i]) * (w - i)\<close>, with
  \<open>w = 10\<close>, \<open>n = 9\<close> and \<open>w = 11\<close>, \<open>n = 10\<close>: a recursion over the indices
  \<open>[0..<n]\<close> with the running sum as accumulator.
\<close>

fun soma_loop :: "int \<Rightarrow> string \<Rightarrow> nat list \<Rightarrow> int \<Rightarrow> exn + int" where
  "soma_loop w cpf [] soma = Inr soma"
| "soma_loop w cpf (i # is) soma =
     (case digito_em cpf i of
        Inl e \<Rightarrow> Inl e
      | Inr d \<Rightarrow> soma_loop w cpf is (soma + d * (w - int i)))"

text \<open>
  \<^verbatim>\<open>resto = soma % 11\<close> and \<^verbatim>\<open>0 if resto < 2 else 11 - resto\<close>. Python's
  \<^verbatim>\<open>%\<close> with a positive modulus is \<open>mod\<close> on \<^typ>\<open>int\<close>.
\<close>

definition digito_verificador :: "int \<Rightarrow> int" where
  "digito_verificador soma = (let resto = soma mod 11 in if resto < 2 then 0 else 11 - resto)"

text \<open>The four messages and the two shapes of the returned dictionary.\<close>

definition erro_tamanho :: string where
  "erro_tamanho = ''CPF deve conter 11 d'' @ [CHR 0xED] @ ''gitos''"

definition erro_iguais :: string where
  "erro_iguais = ''CPF n'' @ [CHR 0xE3] @ ''o pode ter todos os d'' @ [CHR 0xED] @ ''gitos iguais''"

definition erro_primeiro :: string where
  "erro_primeiro = ''Primeiro d'' @ [CHR 0xED] @ ''gito verificador inv'' @ [CHR 0xE1] @ ''lido''"

definition erro_segundo :: string where
  "erro_segundo = ''Segundo d'' @ [CHR 0xED] @ ''gito verificador inv'' @ [CHR 0xE1] @ ''lido''"

definition invalido :: "string \<Rightarrow> dict" where
  "invalido msg =
     [(''valido'', PyBool False), (''erro'', PyStr msg), (''cpf_formatado'', PyNone)]"

definition valido :: "string \<Rightarrow> string \<Rightarrow> dict" where
  "valido cpf_formatado cpf =
     [(''valido'', PyBool True), (''erro'', PyNone),
      (''cpf_formatado'', PyStr cpf_formatado), (''cpf_apenas_numeros'', PyStr cpf)]"

text \<open>
  The f-string \<^verbatim>\<open>f"{cpf[:3]}.{cpf[3:6]}.{cpf[6:9]}-{cpf[9:]}"\<close>; slices never
  raise.
\<close>

definition formata :: "string \<Rightarrow> string" where
  "formata cpf =
     take 3 cpf @ ''.'' @ take 3 (drop 3 cpf) @ ''.'' @ take 3 (drop 6 cpf) @ ''-'' @ drop 9 cpf"

text \<open>
  \<^verbatim>\<open>validar_cpf\<close>, in the order of the source: substitution, length, repeated
  digit (\<^verbatim>\<open>cpf == cpf[0] * 11\<close>), first check digit, second check digit,
  formatting.
\<close>

definition validar_cpf :: "pyval \<Rightarrow> exn + dict" where
  "validar_cpf raw =
     (case re_sub raw of
        Inl e \<Rightarrow> Inl e
      | Inr cpf \<Rightarrow>
         (if length cpf \<noteq> 11 then Inr (invalido erro_tamanho)
          else
           (case py_index cpf 0 of
              Inl e \<Rightarrow> Inl e
            | Inr c0 \<Rightarrow>
               (if cpf = replicate 11 c0 then Inr (invalido erro_iguais)
                else
                 (case soma_loop 10 cpf [0..<9] 0 of
                    Inl e \<Rightarrow> Inl e
                  | Inr soma1 \<Rightarrow>
                     (case digito_em cpf 9 of
                        Inl e \<Rightarrow> Inl e
                      | Inr d9 \<Rightarrow>
                         (if digito_verificador soma1 \<noteq> d9
                          then Inr (invalido erro_primeiro)
                          else
                           (case soma_loop 11 cpf [0..<10] 0 of
                              Inl e \<Rightarrow> Inl e
                            | Inr soma2 \<Rightarrow>
                               (case digito_em cpf 10 of
                                  Inl e \<Rightarrow> Inl e
                                | Inr d10 \<Rightarrow>
                                   (if digito_verificador soma2 \<noteq> d10
                                    then Inr (invalido erro_segundo)
                                    else Inr (valido (formata cpf) cpf)))))))))))"

section \<open>The HTTP handlers\<close>

text \<open>
  A request is what the handlers read from it: the result of \<^verbatim>\<open>req.get_json()\<close>,
  which raises \<^verbatim>\<open>ValueError\<close> when the body is not JSON, and the query parameters
  \<^verbatim>\<open>req.params\<close>, strings by name. A response is the three arguments given to
  \<^verbatim>\<open>func.HttpResponse\<close>. The calls of \<^verbatim>\<open>logging\<close> are kept as a list of
  entries; \<open>LogError e\<close> stands for \<^verbatim>\<open>logging.error(f"Erro interno: {str(e)}")\<close>.
\<close>

record http_request =
  get_json :: "exn + pyval"
  params :: "(string \<times> string) list"

record http_response =
  body :: string
  status_code :: nat
  mimetype :: string

datatype log_entry = LogInfo string | LogError exn

text \<open>
  Truth value of an object, as \<^verbatim>\<open>not cpf\<close> and the conditional expression
  \<^verbatim>\<open>200 if resultado["valido"] else 400\<close> test it.
\<close>

fun truthy :: "pyval \<Rightarrow> bool" where
  "truthy PyNone = False"
| "truthy (PyBool b) = b"
| "truthy (PyInt n) = (n \<noteq> 0)"
| "truthy (PyStr s) = (s \<noteq> [])"
| "truthy (PyList xs) = (xs \<noteq> [])"
| "truthy (PyDict d) = (d \<noteq> [])"

text \<open>
  \<^verbatim>\<open>req_body.get('cpf')\<close>: on a dictionary the value or \<^verbatim>\<open>None\<close>; any other
  parsed JSON value has no attribute \<^verbatim>\<open>get\<close>. \<^verbatim>\<open>resultado["valido"]\<close> raises
  \<^verbatim>\<open>KeyError\<close> on a missing key.
\<close>

fun py_get :: "pyval \<Rightarrow> string \<Rightarrow> exn + pyval" where
  "py_get (PyDict d) k = Inr (case map_of d k of None \<Rightarrow> PyNone | Some v \<Rightarrow> v)"
| "py_get _ k = Inl AttributeError"

definition py_getitem :: "dict \<Rightarrow> string \<Rightarrow> exn + pyval" where
  "py_getitem d k = (case map_of d k of None \<Rightarrow> Inl KeyError | Some v \<Rightarrow> Inr v)"

text \<open>
  The names bound at module level: by the three \<^verbatim>\<open>import\<close> statements
  (\<^verbatim>\<open>azure.functions as func\<close>, \<^verbatim>\<open>logging\<close>, \<^verbatim>\<open>re\<close>), by the assignment to
  \<^verbatim>\<open>app\<close> and by the three \<^verbatim>\<open>def\<close>s. Reading a global name that is neither
  bound there nor a builtin raises \<^verbatim>\<open>NameError\<close>.
\<close>

definition module_globals :: "string list" where
  "module_globals =
     [''func'', ''logging'', ''re'', ''app'', ''validar_cpf'', ''validar_cpf_http'',
      ''validar_cpf_get'']"

definition load_global :: "string \<Rightarrow> exn + unit" where
  "load_global name = (if name \<in> set module_globals then Inr () else Inl NameError)"

text \<open>
  The call that ends both handlers,
  \<^verbatim>\<open>func.HttpResponse(json.dumps(resultado), status_code=200 if resultado["valido"] else 400, mimetype="application/json")\<close>:
  the arguments are evaluated from the left, so the name \<^verbatim>\<open>json\<close> is read first.
  The library function \<^verbatim>\<open>json.dumps\<close> is the parameter \<open>dumps\<close>.
\<close>

definition resposta_resultado :: "(dict \<Rightarrow> string) \<Rightarrow> dict \<Rightarrow> exn + http_response" where
  "resposta_resultado dumps resultado =
     (case load_global ''json'' of
        Inl e \<Rightarrow> Inl e
      | Inr _ \<Rightarrow>
         (case py_getitem resultado ''valido'' of
            Inl e \<Rightarrow> Inl e
          | Inr v \<Rightarrow>
             Inr \<lparr>body = dumps resultado,
                  status_code = (if truthy v then 200 else 400),
                  mimetype = ''application/json''\<rparr>))"

text \<open>The fixed responses of the handlers.\<close>

definition resposta_erro :: "string \<Rightarrow> nat \<Rightarrow> http_response" where
  "resposta_erro texto codigo =
     \<lparr>body = texto, status_code = codigo, mimetype = ''application/json''\<rparr>"

definition corpo_sem_cpf :: string where
  "corpo_sem_cpf =
     ''{\"erro\": \"CPF n'' @ [CHR 0xE3] @ ''o fornecido no corpo da requisi''
       @ [CHR 0xE7, CHR 0xE3] @ ''o\"}''"

definition corpo_invalido :: string where
  "corpo_invalido =
     ''{\"erro\": \"Corpo da requisi'' @ [CHR 0xE7, CHR 0xE3] @ ''o inv'' @ [CHR 0xE1]
       @ ''lido\"}''"

definition corpo_erro_interno :: string where
  "corpo_erro_interno = ''{\"erro\": \"Erro interno do servidor\"}''"

definition corpo_sem_parametro :: string where
  "corpo_sem_parametro =
     ''{\"erro\": \"Par'' @ [CHR 0xE2] @ ''metro CPF n'' @ [CHR 0xE3]
       @ ''o fornecido. Use ?cpf=12345678901\"}''"

text \<open>
  \<^verbatim>\<open>validar_cpf_http\<close> (POST): the body of the \<^verbatim>\<open>try\<close> block first, then the
  two handlers of the \<^verbatim>\<open>try\<close>: \<^verbatim>\<open>except ValueError\<close> answers 400,
  \<^verbatim>\<open>except Exception\<close> logs the exception and answers 500. Every exception of
  \<^typ>\<open>exn\<close> is an \<^verbatim>\<open>Exception\<close>, so none leaves this handler.
\<close>

definition validar_cpf_http_try :: "(dict \<Rightarrow> string) \<Rightarrow> http_request \<Rightarrow> exn + http_response" where
  "validar_cpf_http_try dumps req =
     (case get_json req of
        Inl e \<Rightarrow> Inl e
      | Inr req_body \<Rightarrow>
         (case py_get req_body ''cpf'' of
            Inl e \<Rightarrow> Inl e
          | Inr cpf \<Rightarrow>
             (if \<not> truthy cpf then Inr (resposta_erro corpo_sem_cpf 400)
              else
               (case validar_cpf cpf of
                  Inl e \<Rightarrow> Inl e
                | Inr resultado \<Rightarrow> resposta_resultado dumps resultado))))"

definition validar_cpf_http ::
  "(dict \<Rightarrow> string) \<Rightarrow> http_request \<Rightarrow> log_entry list \<times> (exn + http_response)" where
  "validar_cpf_http dumps req =
     (let info = LogInfo ''Python HTTP trigger function processed a request.''
      in case validar_cpf_http_try dumps req of
           Inr resposta \<Rightarrow> ([info], Inr resposta)
         | Inl ValueError \<Rightarrow> ([info], Inr (resposta_erro corpo_invalido 400))
         | Inl e \<Rightarrow> ([info, LogError e], Inr (resposta_erro corpo_erro_interno 500)))"

text \<open>
  \<^verbatim>\<open>validar_cpf_get\<close> (GET): \<^verbatim>\<open>req.params.get('cpf')\<close> is a string or
  \<^verbatim>\<open>None\<close>; there is no \<^verbatim>\<open>try\<close>, so an exception leaves the handler.
\<close>

definition validar_cpf_get ::
  "(dict \<Rightarrow> string) \<Rightarrow> http_request \<Rightarrow> log_entry list \<times> (exn + http_response)" where
  "validar_cpf_get dumps req =
     (let info = LogInfo ''Python HTTP trigger function processed a GET request.'';
          cpf = (case map_of (params req) ''cpf'' of None \<Rightarrow> PyNone | Some s \<Rightarrow> PyStr s)
      in if \<not> truthy cpf then ([info], Inr (resposta_erro corpo_sem_parametro 400))
         else
          (case validar_cpf cpf of
             Inl e \<Rightarrow> ([info], Inl e)
           | Inr resultado \<Rightarrow> ([info], resposta_resultado dumps resultado)))"

section \<open>The specification's reading of the algorithm\<close>

text \<open>
  The check digits as the specification words them: the weighted sum of digits 0 to 8
  with weights 10 down to 2, and of digits 0 to 9 with weights 11 down to 2; the
  remainder modulo 11; 0 if the remainder is below 2, else 11 minus the remainder.
\<close>

definition check1 :: "string \<Rightarrow> int" where
  "check1 digits =
     (let remainder = (\<Sum>i = 0..8. valor (digits ! i) * (10 - int i)) mod 11
      in if remainder < 2 then 0 else 11 - remainder)"

definition check2 :: "string \<Rightarrow> int" where
  "check2 digits =
     (let remainder = (\<Sum>i = 0..9. valor (digits ! i) * (11 - int i)) mod 11
      in if remainder < 2 then 0 else 11 - remainder)"

text \<open>All digits identical.\<close>

definition todos_iguais :: "string \<Rightarrow> bool" where
  "todos_iguais digits = (\<forall>c \<in> set digits. c = hd digits)"

text \<open>The six steps of the specification's algorithm, on the stripped digits.\<close>

definition veredito :: "string \<Rightarrow> dict" where
  "veredito digits =
     (if length digits \<noteq> 11 then invalido erro_tamanho
      else if todos_iguais digits then invalido erro_iguais
      else if check1 digits \<noteq> valor (digits ! 9) then invalido erro_primeiro
      else if check2 digits \<noteq> valor (digits ! 10) then invalido erro_segundo
      else valido (formata digits) digits)"

text \<open>
  The two shapes of a result: a failure has exactly the keys \<^verbatim>\<open>valido\<close>,
  \<^verbatim>\<open>erro\<close> and \<^verbatim>\<open>cpf_formatado\<close>, with a message and no formatted value; a
  success has these and \<^verbatim>\<open>cpf_apenas_numeros\<close>, with no message.
\<close>

definition forma_invalida :: "dict \<Rightarrow> bool" where
  "forma_invalida r =
     (map fst r = [''valido'', ''erro'', ''cpf_formatado'']
      \<and> map_of r ''valido'' = Some (PyBool False)
      \<and> (case map_of r ''erro'' of Some (PyStr msg) \<Rightarrow> True | _ \<Rightarrow> False)
      \<and> map_of r ''cpf_formatado'' = Some PyNone)"

definition forma_valida :: "dict \<Rightarrow> bool" where
  "forma_valida r =
     (map fst r = [''valido'', ''erro'', ''cpf_formatado'', ''cpf_apenas_numeros'']
      \<and> map_of r ''valido'' = Some (PyBool True)
      \<and> map_of r ''erro'' = Some PyNone
      \<and> (case map_of r ''cpf_formatado'' of Some (PyStr f) \<Rightarrow> True | _ \<Rightarrow> False)
      \<and> (case map_of r ''cpf_apenas_numeros'' of Some (PyStr d) \<Rightarrow> True | _ \<Rightarrow> False))"

section \<open>Properties of the validator\<close>

lemma remove_nao_numericos_filter: "remove_nao_numericos s = filter numerico s"
  by (induction s) simp_all

lemma numerico_remove: "c \<in> set (remove_nao_numericos s) \<Longrightarrow> numerico c"
  by (simp add: remove_nao_numericos_filter)

lemma remove_nao_numericos_idem:
  "remove_nao_numericos (remove_nao_numericos s) = remove_nao_numericos s"
  by (simp add: remove_nao_numericos_filter)

lemma digito_em_numerico:
  "i < length cpf \<Longrightarrow> numerico (cpf ! i) \<Longrightarrow> digito_em cpf i = Inr (valor (cpf ! i))"
  by (simp add: digito_em_def py_index_def py_int_def)

text \<open>
  The loop never raises on a string of digits, and its result is the weighted sum: by
  induction on the list of indices, for any value of the accumulator.
\<close>

lemma soma_loop_sum:
  assumes "\<forall>i \<in> set is. i < length cpf \<and> numerico (cpf ! i)"
  shows "soma_loop w cpf is soma = Inr (soma + (\<Sum>i\<leftarrow>is. valor (cpf ! i) * (w - int i)))"
  using assms
proof (induction "is" arbitrary: soma)
  case Nil
  show ?case by simp
next
  case (Cons i "is")
  then show ?case by (simp add: digito_em_numerico add.assoc)
qed

lemma soma_loop_range:
  assumes "n \<le> length cpf" and "\<forall>c \<in> set cpf. numerico c"
  shows "soma_loop w cpf [0..<n] 0 = Inr (\<Sum>i = 0..<n. valor (cpf ! i) * (w - int i))"
proof -
  have "\<forall>i \<in> set [0..<n]. i < length cpf \<and> numerico (cpf ! i)"
    using assms by auto
  then have "soma_loop w cpf [0..<n] 0 = Inr (0 + (\<Sum>i\<leftarrow>[0..<n]. valor (cpf ! i) * (w - int i)))"
    by (rule soma_loop_sum)
  then show ?thesis
    by (simp add: interv_sum_list_conv_sum_set_nat)
qed

lemma todos_iguais_replicate:
  assumes "length cpf = 11"
  shows "(cpf = replicate 11 (cpf ! 0)) = todos_iguais cpf"
proof
  assume eq: "cpf = replicate 11 (cpf ! 0)"
  have "cpf \<noteq> []" using assms by auto
  then have h: "hd cpf = cpf ! 0" by (simp add: hd_conv_nth)
  have "set cpf \<subseteq> {cpf ! 0}" by (subst eq) simp
  with h show "todos_iguais cpf" by (auto simp: todos_iguais_def)
next
  assume "todos_iguais cpf"
  then have all: "\<forall>c \<in> set cpf. c = hd cpf" by (simp add: todos_iguais_def)
  have "cpf \<noteq> []" using assms by auto
  then have h: "hd cpf = cpf ! 0" by (simp add: hd_conv_nth)
  from all have "replicate (length cpf) (hd cpf) = cpf" by (rule replicate_length_same)
  with assms h show "cpf = replicate 11 (cpf ! 0)" by simp
qed

lemma digito_verificador_check1:
  "digito_verificador (\<Sum>i = 0..<9. valor (cpf ! i) * (10 - int i)) = check1 cpf"
proof -
  have "{0..<9} = {0..8::nat}" by auto
  then show ?thesis by (simp add: digito_verificador_def check1_def)
qed

lemma digito_verificador_check2:
  "digito_verificador (\<Sum>i = 0..<10. valor (cpf ! i) * (11 - int i)) = check2 cpf"
proof -
  have "{0..<10} = {0..9::nat}" by auto
  then show ?thesis by (simp add: digito_verificador_def check2_def)
qed

text \<open>
  On every string the source returns, without raising, what the six steps of the
  specification give on the stripped digits.
\<close>

lemma validar_cpf_veredito:
  "validar_cpf (PyStr s) = Inr (veredito (remove_nao_numericos s))"
proof (cases "length (remove_nao_numericos s) = 11")
  case False
  then show ?thesis by (simp add: validar_cpf_def veredito_def)
next
  case True
  let ?cpf = "remove_nao_numericos s"
  have num: "\<forall>c \<in> set ?cpf. numerico c" by (simp add: numerico_remove)
  have s1: "soma_loop 10 ?cpf [0..<9] 0 = Inr (\<Sum>i = 0..<9. valor (?cpf ! i) * (10 - int i))"
    using True num by (intro soma_loop_range) simp_all
  have s2: "soma_loop 11 ?cpf [0..<10] 0 = Inr (\<Sum>i = 0..<10. valor (?cpf ! i) * (11 - int i))"
    using True num by (intro soma_loop_range) simp_all
  have d9: "digito_em ?cpf 9 = Inr (valor (?cpf ! 9))"
    using True num by (intro digito_em_numerico) simp_all
  have d10: "digito_em ?cpf 10 = Inr (valor (?cpf ! 10))"
    using True num by (intro digito_em_numerico) simp_all
  have i0: "py_index ?cpf 0 = Inr (?cpf ! 0)"
    using True by (simp add: py_index_def)
  have "validar_cpf (PyStr s) =
      Inr (if ?cpf = replicate 11 (?cpf ! 0) then invalido erro_iguais
           else if check1 ?cpf \<noteq> valor (?cpf ! 9) then invalido erro_primeiro
           else if check2 ?cpf \<noteq> valor (?cpf ! 10) then invalido erro_segundo
           else valido (formata ?cpf) ?cpf)"
    unfolding validar_cpf_def
    by (simp only: re_sub.simps sum.case True i0 s1 s2 d9 d10
          digito_verificador_check1 digito_verificador_check2 refl if_False not_True_eq_False
          simp_thms if_distrib [of Inr] split: if_splits)
  then show ?thesis
    using True by (simp add: veredito_def todos_iguais_replicate)
qed

text \<open>The slices of the formatted value, for 11 characters.\<close>

lemma onze_elementos:
  assumes "length xs = 11"
  shows "\<exists>a b c d e f g h i j k. xs = [a, b, c, d, e, f, g, h, i, j, k]"
proof -
  have "length xs = Suc (Suc (Suc (Suc (Suc (Suc (Suc (Suc (Suc (Suc (Suc 0))))))))))"
    using assms by simp
  then show ?thesis by (simp add: length_Suc_conv) blast
qed

lemma formata_onze:
  assumes "length cpf = 11"
  shows "formata cpf =
     [cpf ! 0, cpf ! 1, cpf ! 2, CHR ''.'', cpf ! 3, cpf ! 4, cpf ! 5, CHR ''.'',
      cpf ! 6, cpf ! 7, cpf ! 8, CHR ''-'', cpf ! 9, cpf ! 10]"
proof -
  from onze_elementos [OF assms] obtain a b c d e f g h i j k
    where "cpf = [a, b, c, d, e, f, g, h, i, j, k]" by blast
  then show ?thesis by (simp add: formata_def)
qed

text \<open>What the verdict is when it is a success, and the shape of every verdict.\<close>

lemma veredito_valido:
  assumes "map_of (veredito cpf) ''valido'' = Some (PyBool True)"
  shows "veredito cpf = valido (formata cpf) cpf"
  using assms by (simp add: veredito_def invalido_def split: if_splits)

lemma veredito_forma:
  "(forma_invalida (veredito cpf) \<or> forma_valida (veredito cpf))
   \<and> ((''cpf_apenas_numeros'' \<in> set (map fst (veredito cpf)))
        = (map_of (veredito cpf) ''valido'' = Some (PyBool True)))"
  by (simp add: veredito_def forma_invalida_def forma_valida_def invalido_def valido_def)

text \<open>
  C2. For every input string whose digit-stripped form does not contain exactly 11
  digits, the validator returns the invalid result with the wrong-length message.
\<close>

theorem validar_cpf_tamanho:
  assumes "length (remove_nao_numericos s) \<noteq> 11"
  shows "validar_cpf (PyStr s) = Inr (invalido erro_tamanho)"
  using assms by (simp add: validar_cpf_def)

theorem validar_cpf_tamanho_witness:
  "length (remove_nao_numericos ''123.456'') \<noteq> 11
   \<and> validar_cpf (PyStr ''123.456'') = Inr (invalido erro_tamanho)"
  using validar_cpf_tamanho [of "''123.456''"] by (simp add: numerico_def)

text \<open>
  C1. For every input string whose stripped form has exactly 11 digits, not all
  identical: the loop and the remainder rule of the source compute the first check
  digit as the weighted sum of digits 0 to 8 (weights 10 down to 2) modulo 11, 0 below
  2 and 11 minus the remainder otherwise, and the second one likewise from digits 0 to
  9 (weights 11 down to 2); when the first differs from digit 9 the result is the
  failure with the first-check-digit message, and otherwise when the second differs
  from digit 10 the failure with the second-check-digit message.
\<close>

theorem validar_cpf_digitos_verificadores:
  assumes "remove_nao_numericos s = cpf" and "length cpf = 11" and "\<not> todos_iguais cpf"
  shows "map_sum id digito_verificador (soma_loop 10 cpf [0..<9] 0) = Inr (check1 cpf)
    \<and> map_sum id digito_verificador (soma_loop 11 cpf [0..<10] 0) = Inr (check2 cpf)
    \<and> (check1 cpf \<noteq> valor (cpf ! 9)
         \<longrightarrow> validar_cpf (PyStr s) = Inr (invalido erro_primeiro))
    \<and> (check1 cpf = valor (cpf ! 9) \<and> check2 cpf \<noteq> valor (cpf ! 10)
         \<longrightarrow> validar_cpf (PyStr s) = Inr (invalido erro_segundo))"
proof -
  have num: "\<forall>c \<in> set cpf. numerico c"
    using assms(1) numerico_remove by blast
  have "soma_loop 10 cpf [0..<9] 0 = Inr (\<Sum>i = 0..<9. valor (cpf ! i) * (10 - int i))"
    using assms(2) num by (intro soma_loop_range) simp_all
  then have c1: "map_sum id digito_verificador (soma_loop 10 cpf [0..<9] 0) = Inr (check1 cpf)"
    by (simp add: digito_verificador_check1)
  have "soma_loop 11 cpf [0..<10] 0 = Inr (\<Sum>i = 0..<10. valor (cpf ! i) * (11 - int i))"
    using assms(2) num by (intro soma_loop_range) simp_all
  then have c2: "map_sum id digito_verificador (soma_loop 11 cpf [0..<10] 0) = Inr (check2 cpf)"
    by (simp add: digito_verificador_check2)
  have v: "validar_cpf (PyStr s) = Inr (veredito cpf)"
    using assms(1) by (simp add: validar_cpf_veredito)
  have r1: "check1 cpf \<noteq> valor (cpf ! 9)
      \<longrightarrow> validar_cpf (PyStr s) = Inr (invalido erro_primeiro)"
    using assms(2,3) by (simp add: v veredito_def)
  have r2: "check1 cpf = valor (cpf ! 9) \<and> check2 cpf \<noteq> valor (cpf ! 10)
      \<longrightarrow> validar_cpf (PyStr s) = Inr (invalido erro_segundo)"
    using assms(2,3) by (simp add: v veredito_def)
  from c1 c2 r1 r2 show ?thesis by blast
qed

theorem validar_cpf_digitos_verificadores_witness:
  "validar_cpf (PyStr ''111.444.777-45'') = Inr (invalido erro_primeiro)
   \<and> validar_cpf (PyStr ''111.444.777-36'') = Inr (invalido erro_segundo)
   \<and> check1 ''11144477745'' = 3 \<and> check2 ''11144477736'' = 5"
proof -
  have a: "remove_nao_numericos ''111.444.777-45'' = ''11144477745''" by code_simp
  have b: "remove_nao_numericos ''111.444.777-36'' = ''11144477736''" by code_simp
  have la: "length ''11144477745'' = 11" and lb: "length ''11144477736'' = 11" by simp_all
  have ta: "\<not> todos_iguais ''11144477745''" and tb: "\<not> todos_iguais ''11144477736''"
    by code_simp+
  have ca: "check1 ''11144477745'' = 3" by code_simp
  have va: "valor (''11144477745'' ! 9) = 4" by code_simp
  have cb: "check1 ''11144477736'' = 3" by code_simp
  have vb: "valor (''11144477736'' ! 9) = 3" by code_simp
  have cb2: "check2 ''11144477736'' = 5" by code_simp
  have vb2: "valor (''11144477736'' ! 10) = 6" by code_simp
  from validar_cpf_digitos_verificadores [OF a la ta] ca va
  have 1: "validar_cpf (PyStr ''111.444.777-45'') = Inr (invalido erro_primeiro)" by simp
  from validar_cpf_digitos_verificadores [OF b lb tb] cb vb cb2 vb2
  have 2: "validar_cpf (PyStr ''111.444.777-36'') = Inr (invalido erro_segundo)" by simp
  from 1 2 ca cb2 show ?thesis by blast
qed

text \<open>
  C3. For every input string whose stripped form is 11 copies of one digit, the result
  is the failure with the repeated-digit message.
\<close>

theorem validar_cpf_iguais:
  assumes "remove_nao_numericos s = replicate 11 c"
  shows "validar_cpf (PyStr s) = Inr (invalido erro_iguais)"
proof -
  have "todos_iguais (replicate 11 c)" by (simp add: todos_iguais_def)
  then show ?thesis by (simp add: validar_cpf_veredito assms veredito_def)
qed

theorem validar_cpf_iguais_witness:
  "remove_nao_numericos ''111.111.111-11'' = replicate 11 CHR ''1''
   \<and> validar_cpf (PyStr ''111.111.111-11'') = Inr (invalido erro_iguais)
   \<and> validar_cpf (PyStr ''00000000000'') = Inr (invalido erro_iguais)"
proof -
  have a: "remove_nao_numericos ''111.111.111-11'' = replicate 11 CHR ''1''" by code_simp
  have b: "remove_nao_numericos ''00000000000'' = replicate 11 CHR ''0''" by code_simp
  from a validar_cpf_iguais [OF a] validar_cpf_iguais [OF b] show ?thesis by blast
qed

text \<open>
  C4. When every check passes (11 digits, not all identical, both check digits equal
  to digits 9 and 10) the result is the success dictionary with the digits formatted as
  DDD.DDD.DDD-DD and the digits-only string; \<^verbatim>\<open>11144477735\<close> gives the success
  with \<^verbatim>\<open>111.444.777-35\<close>, and \<^verbatim>\<open>11144477736\<close> the failure with the
  second-check-digit message.
\<close>

theorem validar_cpf_sucesso:
  "(remove_nao_numericos s = cpf \<and> length cpf = 11 \<and> \<not> todos_iguais cpf
      \<and> check1 cpf = valor (cpf ! 9) \<and> check2 cpf = valor (cpf ! 10)
     \<longrightarrow> validar_cpf (PyStr s) =
          Inr [(''valido'', PyBool True), (''erro'', PyNone),
               (''cpf_formatado'',
                PyStr [cpf ! 0, cpf ! 1, cpf ! 2, CHR ''.'', cpf ! 3, cpf ! 4, cpf ! 5,
                       CHR ''.'', cpf ! 6, cpf ! 7, cpf ! 8, CHR ''-'', cpf ! 9, cpf ! 10]),
               (''cpf_apenas_numeros'', PyStr cpf)])
   \<and> validar_cpf (PyStr ''11144477735'') =
       Inr [(''valido'', PyBool True), (''erro'', PyNone),
            (''cpf_formatado'', PyStr ''111.444.777-35''),
            (''cpf_apenas_numeros'', PyStr ''11144477735'')]
   \<and> validar_cpf (PyStr ''11144477736'') =
       Inr [(''valido'', PyBool False),
            (''erro'',
             PyStr (''Segundo d'' @ [CHR 0xED] @ ''gito verificador inv'' @ [CHR 0xE1]
                    @ ''lido'')),
            (''cpf_formatado'', PyNone)]"
proof -
  have geral: "validar_cpf (PyStr s) =
          Inr (valido
                [cpf ! 0, cpf ! 1, cpf ! 2, CHR ''.'', cpf ! 3, cpf ! 4, cpf ! 5, CHR ''.'',
                 cpf ! 6, cpf ! 7, cpf ! 8, CHR ''-'', cpf ! 9, cpf ! 10]
                cpf)"
    if h: "remove_nao_numericos s = cpf \<and> length cpf = 11 \<and> \<not> todos_iguais cpf
      \<and> check1 cpf = valor (cpf ! 9) \<and> check2 cpf = valor (cpf ! 10)"
  proof -
    from h have "veredito cpf = valido (formata cpf) cpf" by (simp add: veredito_def)
    with h show ?thesis
      using formata_onze [of cpf] validar_cpf_veredito [of s] by simp
  qed
  have "veredito (remove_nao_numericos ''11144477735'') = valido ''111.444.777-35'' ''11144477735''"
    by code_simp
  then have a: "validar_cpf (PyStr ''11144477735'') =
      Inr (valido ''111.444.777-35'' ''11144477735'')"
    by (simp only: validar_cpf_veredito)
  have "veredito (remove_nao_numericos ''11144477736'') = invalido erro_segundo"
    by code_simp
  then have b: "validar_cpf (PyStr ''11144477736'') = Inr (invalido erro_segundo)"
    by (simp only: validar_cpf_veredito)
  from geral a b show ?thesis
    unfolding valido_def invalido_def erro_segundo_def by blast
qed

theorem validar_cpf_sucesso_witness:
  "validar_cpf (PyStr ''529.982.247-25'') =
     Inr [(''valido'', PyBool True), (''erro'', PyNone),
          (''cpf_formatado'', PyStr ''529.982.247-25''),
          (''cpf_apenas_numeros'', PyStr ''52998224725'')]"
proof -
  have a: "remove_nao_numericos ''529.982.247-25'' = ''52998224725''" by code_simp
  have l: "length ''52998224725'' = 11" by simp
  have t: "\<not> todos_iguais ''52998224725''" by code_simp
  have c1: "check1 ''52998224725'' = valor (''52998224725'' ! 9)" by code_simp
  have c2: "check2 ''52998224725'' = valor (''52998224725'' ! 10)" by code_simp
  from validar_cpf_sucesso [of "''529.982.247-25''" "''52998224725''"] a l t c1 c2
  show ?thesis by simp
qed

text \<open>
  C5. For every input string the result is the result on its stripped form, where
  stripping keeps exactly the characters \<^verbatim>\<open>0\<close> to \<^verbatim>\<open>9\<close> (the source's
  substitution is this filter); in particular \<^verbatim>\<open>111.444.777-35\<close> and
  \<^verbatim>\<open>11144477735\<close> give the same result.
\<close>

theorem validar_cpf_remove:
  "remove_nao_numericos s = filter numerico s
   \<and> validar_cpf (PyStr s) = validar_cpf (PyStr (filter numerico s))
   \<and> validar_cpf (PyStr ''111.444.777-35'') = validar_cpf (PyStr ''11144477735'')"
proof -
  have a: "validar_cpf (PyStr s) = validar_cpf (PyStr (filter numerico s))"
    by (simp add: validar_cpf_veredito remove_nao_numericos_filter)
  have "remove_nao_numericos ''111.444.777-35'' = remove_nao_numericos ''11144477735''"
    by code_simp
  then have b: "validar_cpf (PyStr ''111.444.777-35'') = validar_cpf (PyStr ''11144477735'')"
    by (simp only: validar_cpf_veredito)
  from a b show ?thesis by (simp add: remove_nao_numericos_filter)
qed

text \<open>
  C6. Idempotence: when the result for a string is a success whose digits-only field is
  \<open>d\<close>, the result for \<open>d\<close> is the same dictionary (same flag, formatted value and
  digits).
\<close>

theorem validar_cpf_idempotente:
  assumes "validar_cpf (PyStr s) = Inr r"
    and "map_of r ''valido'' = Some (PyBool True)"
    and "map_of r ''cpf_apenas_numeros'' = Some (PyStr d)"
  shows "validar_cpf (PyStr d) = Inr r"
proof -
  let ?cpf = "remove_nao_numericos s"
  from assms(1) have r: "r = veredito ?cpf" by (simp add: validar_cpf_veredito)
  from assms(2) have "map_of (veredito ?cpf) ''valido'' = Some (PyBool True)"
    unfolding r .
  then have v: "veredito ?cpf = valido (formata ?cpf) ?cpf" by (rule veredito_valido)
  from assms(3) have "map_of (valido (formata ?cpf) ?cpf) ''cpf_apenas_numeros'' = Some (PyStr d)"
    unfolding r v .
  then have d: "d = ?cpf" by (simp add: valido_def)
  have "validar_cpf (PyStr d) = Inr (veredito (remove_nao_numericos ?cpf))"
    unfolding d by (rule validar_cpf_veredito)
  then show ?thesis
    unfolding r by (simp only: remove_nao_numericos_idem)
qed


theorem validar_cpf_idempotente_witness:
  "validar_cpf (PyStr ''111.444.777-35'') = Inr (valido ''111.444.777-35'' ''11144477735'')
   \<and> validar_cpf (PyStr ''11144477735'') = Inr (valido ''111.444.777-35'' ''11144477735'')"
proof -
  have "veredito (remove_nao_numericos ''111.444.777-35'') = valido ''111.444.777-35'' ''11144477735''"
    by code_simp
  then have a: "validar_cpf (PyStr ''111.444.777-35'') = Inr (valido ''111.444.777-35'' ''11144477735'')"
    by (simp only: validar_cpf_veredito)
  have b: "map_of (valido ''111.444.777-35'' ''11144477735'') ''valido'' = Some (PyBool True)"
    by (simp add: valido_def)
  have c: "map_of (valido ''111.444.777-35'' ''11144477735'') ''cpf_apenas_numeros'' = Some (PyStr ''11144477735'')"
    by (simp add: valido_def)
  from a validar_cpf_idempotente [OF a b c] show ?thesis by blast
qed

text \<open>
  C7, as the claim has it, fails: on an argument that is not a string, here the integer
  11144477735 as a JSON body \<^verbatim>\<open>{"cpf": 11144477735}\<close> gives it, the call raises
  \<^verbatim>\<open>TypeError\<close>; no result with an invalid-input reason is returned.
\<close>

theorem validar_cpf_nao_texto_counterexample:
  "validar_cpf (PyInt 11144477735) = Inl TypeError"
  by (simp add: validar_cpf_def)

text \<open>
  C7, amended. On every string the validator returns a dictionary and raises nothing:
  each validation error is data. On an argument that is not a string, which the
  annotation \<^verbatim>\<open>cpf: str\<close> excludes, it raises \<^verbatim>\<open>TypeError\<close>; the code has no
  invalid-input reason.
\<close>

theorem validar_cpf_excecoes:
  "validar_cpf v =
     (case v of PyStr s \<Rightarrow> Inr (veredito (remove_nao_numericos s)) | _ \<Rightarrow> Inl TypeError)"
  by (cases v) (simp_all add: validar_cpf_veredito, simp_all add: validar_cpf_def)

text \<open>
  C10. Shape of the result, for every input string: a dictionary is returned, either
  a failure with exactly the keys \<^verbatim>\<open>valido\<close> (false), \<^verbatim>\<open>erro\<close> (a message)
  and \<^verbatim>\<open>cpf_formatado\<close> (None), or a success with these three and
  \<^verbatim>\<open>cpf_apenas_numeros\<close>, \<^verbatim>\<open>erro\<close> being None; the key
  \<^verbatim>\<open>cpf_apenas_numeros\<close> is present exactly when \<^verbatim>\<open>valido\<close> is true.
\<close>

theorem validar_cpf_forma:
  "\<exists>r. validar_cpf (PyStr s) = Inr r
     \<and> (forma_invalida r \<or> forma_valida r)
     \<and> ((''cpf_apenas_numeros'' \<in> set (map fst r)) = (map_of r ''valido'' = Some (PyBool True)))"
  using veredito_forma [of "remove_nao_numericos s"] by (simp add: validar_cpf_veredito)

section \<open>Properties of the handlers\<close>

text \<open>
  The module never binds the name \<^verbatim>\<open>json\<close>, so the call that builds the response
  from a result raises \<^verbatim>\<open>NameError\<close>, whatever the result and whatever
  \<^verbatim>\<open>json.dumps\<close> would compute. With a non-empty string as \<^verbatim>\<open>cpf\<close> the POST
  handler catches it under \<^verbatim>\<open>except Exception\<close> and answers 500; the GET handler
  lets it escape.
\<close>

lemma load_global_json: "load_global ''json'' = Inl NameError"
  by (simp add: load_global_def module_globals_def)

lemma resposta_resultado_NameError: "resposta_resultado dumps resultado = Inl NameError"
  by (simp add: resposta_resultado_def load_global_json)

lemma validar_cpf_http_texto:
  assumes "get_json req = Inr (PyDict d)" and "map_of d ''cpf'' = Some (PyStr s)" and "s \<noteq> []"
  shows "validar_cpf_http dumps req =
     ([LogInfo ''Python HTTP trigger function processed a request.'', LogError NameError],
      Inr (resposta_erro corpo_erro_interno 500))"
  using assms
  by (simp add: validar_cpf_http_def validar_cpf_http_try_def validar_cpf_veredito
      resposta_resultado_NameError)

lemma validar_cpf_get_texto:
  assumes "map_of (params req) ''cpf'' = Some s" and "s \<noteq> []"
  shows "validar_cpf_get dumps req =
     ([LogInfo ''Python HTTP trigger function processed a GET request.''], Inl NameError)"
  using assms
  by (simp add: validar_cpf_get_def validar_cpf_veredito resposta_resultado_NameError)

text \<open>
  C8 says that with a CPF string present both handlers answer 200 with the result as
  JSON when it is valid and 400 with the result as JSON when it is not. The code at
  such requests: for the valid CPF \<^verbatim>\<open>11144477735\<close> and the invalid
  \<^verbatim>\<open>11144477736\<close> the POST handler answers 500 with the internal-error body, and
  the GET handler raises \<^verbatim>\<open>NameError\<close>.
\<close>

theorem handlers_json_nao_importado:
  "validar_cpf_http dumps
      \<lparr>get_json = Inr (PyDict [(''cpf'', PyStr ''11144477735'')]), params = []\<rparr> =
     ([LogInfo ''Python HTTP trigger function processed a request.'', LogError NameError],
      Inr \<lparr>body = corpo_erro_interno, status_code = 500, mimetype = ''application/json''\<rparr>)
   \<and> validar_cpf_http dumps
      \<lparr>get_json = Inr (PyDict [(''cpf'', PyStr ''11144477736'')]), params = []\<rparr> =
     ([LogInfo ''Python HTTP trigger function processed a request.'', LogError NameError],
      Inr \<lparr>body = corpo_erro_interno, status_code = 500, mimetype = ''application/json''\<rparr>)
   \<and> validar_cpf_get dumps
      \<lparr>get_json = Inl ValueError, params = [(''cpf'', ''11144477735'')]\<rparr> =
     ([LogInfo ''Python HTTP trigger function processed a GET request.''], Inl NameError)"
proof -
  have a: "validar_cpf_http dumps
      \<lparr>get_json = Inr (PyDict [(''cpf'', PyStr ''11144477735'')]), params = []\<rparr> =
     ([LogInfo ''Python HTTP trigger function processed a request.'', LogError NameError],
      Inr (resposta_erro corpo_erro_interno 500))"
    by (rule validar_cpf_http_texto [where d = "[(''cpf'', PyStr ''11144477735'')]"
          and s = "''11144477735''"]) simp_all
  have b: "validar_cpf_http dumps
      \<lparr>get_json = Inr (PyDict [(''cpf'', PyStr ''11144477736'')]), params = []\<rparr> =
     ([LogInfo ''Python HTTP trigger function processed a request.'', LogError NameError],
      Inr (resposta_erro corpo_erro_interno 500))"
    by (rule validar_cpf_http_texto [where d = "[(''cpf'', PyStr ''11144477736'')]"
          and s = "''11144477736''"]) simp_all
  have c: "validar_cpf_get dumps
      \<lparr>get_json = Inl ValueError, params = [(''cpf'', ''11144477735'')]\<rparr> =
     ([LogInfo ''Python HTTP trigger function processed a GET request.''], Inl NameError)"
    by (rule validar_cpf_get_texto [where s = "''11144477735''"]) simp_all
  from a b c show ?thesis by (simp add: resposta_erro_def)
qed

text \<open>
  C9. A POST request whose JSON object has no \<^verbatim>\<open>cpf\<close> field is answered with
  status 400 and the missing-input body, and a GET request without the \<^verbatim>\<open>cpf\<close>
  query parameter likewise. Both responses are the fixed literals, returned before
  \<^verbatim>\<open>validar_cpf\<close> is called: nothing is logged but the first entry and no result
  dictionary is part of the response.
\<close>

theorem handlers_sem_cpf:
  "(get_json req = Inr (PyDict d) \<and> map_of d ''cpf'' = None
      \<longrightarrow> validar_cpf_http dumps req =
           ([LogInfo ''Python HTTP trigger function processed a request.''],
            Inr \<lparr>body = corpo_sem_cpf, status_code = 400, mimetype = ''application/json''\<rparr>))
   \<and> (map_of (params req) ''cpf'' = None
      \<longrightarrow> validar_cpf_get dumps req =
           ([LogInfo ''Python HTTP trigger function processed a GET request.''],
            Inr \<lparr>body = corpo_sem_parametro, status_code = 400,
                 mimetype = ''application/json''\<rparr>))"
  by (simp add: validar_cpf_http_def validar_cpf_http_try_def validar_cpf_get_def
      resposta_erro_def)

theorem handlers_sem_cpf_witness:
  "validar_cpf_http (\<lambda>resultado. []) \<lparr>get_json = Inr (PyDict [(''nome'', PyStr ''Ana'')]), params = []\<rparr> =
     ([LogInfo ''Python HTTP trigger function processed a request.''],
      Inr \<lparr>body = corpo_sem_cpf, status_code = 400, mimetype = ''application/json''\<rparr>)
   \<and> validar_cpf_get (\<lambda>resultado. []) \<lparr>get_json = Inl ValueError, params = [(''nome'', ''Ana'')]\<rparr> =
     ([LogInfo ''Python HTTP trigger function processed a GET request.''],
      Inr \<lparr>body = corpo_sem_parametro, status_code = 400, mimetype = ''application/json''\<rparr>)"
  using handlers_sem_cpf [of "\<lparr>get_json = Inr (PyDict [(''nome'', PyStr ''Ana'')]), params = []\<rparr>"
      "[(''nome'', PyStr ''Ana'')]" "\<lambda>resultado. []"]
    handlers_sem_cpf [of "\<lparr>get_json = Inl ValueError, params = [(''nome'', ''Ana'')]\<rparr>" "[]" "\<lambda>resultado. []"]
  by simp

end
